theory Spec2Isabelle
  imports Complex_Main
begin

section \<open>Values, errors and arrays\<close>

text \<open>
  The module \<^verbatim>\<open>scipy/optimize/_numdiff.py\<close> computes with float64 arrays.  The
  embedding takes the arithmetic to be exact: a finite array element is a \<^typ>\<open>real\<close>,
  and the two infinities that bounds may hold are added by the type \<open>ext\<close> below.
  Rounding is taken up only where \<open>fl64\<close> is written; signed zeros and NaN are outside
  the embedding.  A one-dimensional array is a list; a Python exception is a value
  \<open>Inl e\<close> of the sum type \<open>error + 'a\<close>.

  A division by zero raises nothing in numpy: the result holds \<open>nan\<close> or \<open>inf\<close> and the
  computation goes on.  The reals have neither value, so the embedding ends such a call
  with \<open>NanOrInf\<close>, which is no exception of the code; nothing is stated about a call
  that divides by zero.
\<close>

datatype error =
    ValueError string
  | RuntimeError string
  | IndexError
  | UnboundLocalError
  | TypeError
  | NanOrInf

definition ebind :: "error + 'a \<Rightarrow> ('a \<Rightarrow> error + 'b) \<Rightarrow> error + 'b" where
  "ebind m f = (case m of Inl e \<Rightarrow> Inl e | Inr v \<Rightarrow> f v)"

text \<open>
  An \<open>array_like\<close> argument: a scalar, a one-dimensional sequence, or anything with more
  than one dimension (\<open>ArrN\<close>; the code only ever rejects such a value, so its contents
  are not kept).
\<close>

datatype 'a array_like = Scalar 'a | Arr1 "'a list" | ArrN

text \<open>Extended reals: the values a bound, or a distance to a bound, can take.\<close>

datatype ext = MInf | Fin real | PInf

instantiation ext :: linorder
begin

fun less_eq_ext :: "ext \<Rightarrow> ext \<Rightarrow> bool" where
  "less_eq_ext MInf b = True"
| "less_eq_ext (Fin x) MInf = False"
| "less_eq_ext (Fin x) (Fin y) = (x \<le> y)"
| "less_eq_ext (Fin x) PInf = True"
| "less_eq_ext PInf MInf = False"
| "less_eq_ext PInf (Fin y) = False"
| "less_eq_ext PInf PInf = True"

fun less_ext :: "ext \<Rightarrow> ext \<Rightarrow> bool" where
  "less_ext a MInf = False"
| "less_ext MInf (Fin y) = True"
| "less_ext MInf PInf = True"
| "less_ext (Fin x) (Fin y) = (x < y)"
| "less_ext (Fin x) PInf = True"
| "less_ext PInf (Fin y) = False"
| "less_ext PInf PInf = False"

instance
proof
  fix a b c :: ext
  show "(a < b) = (a \<le> b \<and> \<not> b \<le> a)"
    by (cases a; cases b) auto
  show "a \<le> a"
    by (cases a) auto
  show "a \<le> b \<Longrightarrow> b \<le> c \<Longrightarrow> a \<le> c"
    by (cases a; cases b; cases c) auto
  show "a \<le> b \<Longrightarrow> b \<le> a \<Longrightarrow> a = b"
    by (cases a; cases b) auto
  show "a \<le> b \<or> b \<le> a"
    by (cases a; cases b) auto
qed

end

text \<open>\<open>x - b\<close> and \<open>b - x\<close> for a finite \<open>x\<close> and a bound \<open>b\<close>.\<close>

fun rsub :: "real \<Rightarrow> ext \<Rightarrow> ext" where
  "rsub x MInf = PInf"
| "rsub x (Fin l) = Fin (x - l)"
| "rsub x PInf = MInf"

fun esub :: "ext \<Rightarrow> real \<Rightarrow> ext" where
  "esub MInf x = MInf"
| "esub (Fin u) x = Fin (u - x)"
| "esub PInf x = PInf"

text \<open>
  Product of a finite factor and an extended value.  IEEE gives NaN for \<open>0 * inf\<close>;
  the code multiplies distances by \<open>-1\<close>, \<open>0.5\<close> and \<open>1 / num_steps\<close> only, and
  \<open>num_steps\<close> is 1 at both call sites, so the factor is never zero there.
\<close>

fun emul :: "real \<Rightarrow> ext \<Rightarrow> ext" where
  "emul c (Fin x) = Fin (c * x)"
| "emul c PInf = (if 0 < c then PInf else if c < 0 then MInf else Fin 0)"
| "emul c MInf = (if 0 < c then MInf else if c < 0 then PInf else Fin 0)"

definition ediv :: "ext \<Rightarrow> nat \<Rightarrow> ext" where
  "ediv d k = emul (1 / real k) d"

fun eabs :: "ext \<Rightarrow> ext" where
  "eabs (Fin x) = Fin \<bar>x\<bar>"
| "eabs MInf = PInf"
| "eabs PInf = PInf"

text \<open>The finite value of an array element known to be finite.\<close>

fun real_of_ext :: "ext \<Rightarrow> real" where
  "real_of_ext (Fin x) = x"
| "real_of_ext MInf = 0"
| "real_of_ext PInf = 0"

text \<open>An elementwise expression over arrays of shape \<open>(n,)\<close>.\<close>

definition vec :: "nat \<Rightarrow> (nat \<Rightarrow> 'a) \<Rightarrow> 'a list" where
  "vec n f = map f [0..<n]"

section \<open>StepPlanner\<close>

text \<open>
  \<^verbatim>\<open>_adjust_scheme_to_bounds\<close> (lines 14-90).  The arrays \<open>x0\<close>, \<open>h\<close>, \<open>lb\<close>
  and \<open>ub\<close> have the same shape \<open>(n,)\<close>: \<^verbatim>\<open>approx_derivative\<close> checks the bounds
  against \<open>x0\<close> (lines 306-307) and computes \<open>h\<close> from \<open>x0\<close>.  Every statement of
  the two branches is elementwise, so each branch is written for one variable, a masked
  assignment \<^verbatim>\<open>a[mask] = b[mask]\<close> being the choice between \<open>b\<close> and the old \<open>a\<close>;
  the function applies it at every index.  Only the test of line 53 looks at all
  variables at once.
\<close>

text \<open>Lines 63-71, for one variable: the new \<open>h_adjusted[i]\<close>.\<close>

definition one_sided_adjust ::
  "real \<Rightarrow> real \<Rightarrow> nat \<Rightarrow> ext \<Rightarrow> ext \<Rightarrow> ext" where
  "one_sided_adjust x0 h num_steps lb ub =
    (let h_total = h * real num_steps;
         h_adjusted = Fin h;
         lower_dist = rsub x0 lb;
         upper_dist = esub ub x0;
         x = x0 + h_total;
         violated = (Fin x < lb \<or> ub < Fin x);
         fitting = (Fin \<bar>h_total\<bar> \<le> max lower_dist upper_dist);
         h_adjusted = (if violated \<and> fitting then emul (- 1) h_adjusted else h_adjusted);
         forward = (lower_dist \<le> upper_dist \<and> \<not> fitting);
         h_adjusted = (if forward then ediv upper_dist num_steps else h_adjusted);
         backward = (upper_dist < lower_dist \<and> \<not> fitting);
         h_adjusted = (if backward then ediv (emul (- 1) lower_dist) num_steps else h_adjusted)
     in h_adjusted)"

text \<open>
  Lines 73-88, for one variable: the new \<open>h_adjusted[i]\<close> and \<open>use_one_sided[i]\<close>.
  The argument \<open>h\<close> is \<^verbatim>\<open>np.abs(h)[i]\<close> of line 48.
\<close>

definition two_sided_adjust ::
  "real \<Rightarrow> real \<Rightarrow> nat \<Rightarrow> ext \<Rightarrow> ext \<Rightarrow> ext \<times> bool" where
  "two_sided_adjust x0 h num_steps lb ub =
    (let h_total = h * real num_steps;
         h_adjusted = Fin h;
         use_one_sided = False;
         lower_dist = rsub x0 lb;
         upper_dist = esub ub x0;
         central = (Fin h_total \<le> lower_dist \<and> Fin h_total \<le> upper_dist);
         forward = (lower_dist \<le> upper_dist \<and> \<not> central);
         h_adjusted = (if forward then min (Fin h) (ediv (emul 0.5 upper_dist) num_steps)
                       else h_adjusted);
         use_one_sided = (if forward then True else use_one_sided);
         backward = (upper_dist < lower_dist \<and> \<not> central);
         h_adjusted = (if backward
                       then emul (- 1) (min (Fin h) (ediv (emul 0.5 lower_dist) num_steps))
                       else h_adjusted);
         use_one_sided = (if backward then True else use_one_sided);
         min_dist = ediv (min upper_dist lower_dist) num_steps;
         adjusted_central = (\<not> central \<and> eabs h_adjusted \<le> min_dist);
         h_adjusted = (if adjusted_central then min_dist else h_adjusted);
         use_one_sided = (if adjusted_central then False else use_one_sided)
     in (h_adjusted, use_one_sided))"

definition adjust_scheme_to_bounds ::
  "real list \<Rightarrow> real list \<Rightarrow> nat \<Rightarrow> string \<Rightarrow> ext list \<Rightarrow> ext list
    \<Rightarrow> error + (ext list \<times> bool list)" where
  "adjust_scheme_to_bounds x0 h_arg num_steps scheme lb ub =
    (if scheme \<noteq> ''1-sided'' \<and> scheme \<noteq> ''2-sided''
     then Inl (ValueError ''scheme must be 1-sided or 2-sided'')
     else
       let n = length h_arg;
           h = (if scheme = ''1-sided'' then h_arg else map abs h_arg);
           use_one_sided = replicate n (scheme = ''1-sided'')
       in
       if list_all (\<lambda>(l, u). l = MInf \<and> u = PInf) (zip lb ub)
       then Inr (map Fin h, use_one_sided)
       else if scheme = ''1-sided''
       then Inr (vec n (\<lambda>i. one_sided_adjust (x0 ! i) (h ! i) num_steps (lb ! i) (ub ! i)),
                 use_one_sided)
       else Inr (vec n (\<lambda>i. fst (two_sided_adjust (x0 ! i) (h ! i) num_steps (lb ! i) (ub ! i))),
                 vec n (\<lambda>i. snd (two_sided_adjust (x0 ! i) (h ! i) num_steps (lb ! i) (ub ! i)))))"

text \<open>
  \<open>EPS\<close> is \<^verbatim>\<open>np.finfo(np.float64).eps\<close> (line 11), the spacing of float64 at 1.
\<close>

definition EPS :: real where
  "EPS = 2 powr (- 52)"

text \<open>
  \<^verbatim>\<open>_compute_absolute_step\<close> (lines 93-103).  The relative step is \<open>None\<close> or a
  scalar; an array-valued \<open>rel_step\<close> is not modelled.
\<close>

definition compute_absolute_step :: "real option \<Rightarrow> real list \<Rightarrow> string \<Rightarrow> error + real list" where
  "compute_absolute_step rel_step x0 method =
    ebind
      (case rel_step of
         None \<Rightarrow>
           if method = ''2-point'' then Inr (EPS powr 0.5)
           else if method = ''3-point'' then Inr (EPS powr (1 / 3))
           else Inl (ValueError ''method must be 2-point or 3-point'')
       | Some r \<Rightarrow> Inr r)
      (\<lambda>rel_step.
         let sign_x0 = map (\<lambda>x. (if 0 \<le> x then 1 else 0) * 2 - 1) x0
         in Inr (vec (length x0) (\<lambda>i. rel_step * sign_x0 ! i * max 1 \<bar>x0 ! i\<bar>)))"

text \<open>
  The one-sided rule as the specification words it (section 4.2): flip the sign when the
  step leaves the interval and fits; \<^emph>\<open>otherwise\<close> clamp to the farther bound.  It is
  compared with \<open>one_sided_adjust\<close> below.
\<close>

definition claimed_one_sided_step ::
  "real \<Rightarrow> real \<Rightarrow> nat \<Rightarrow> ext \<Rightarrow> ext \<Rightarrow> ext" where
  "claimed_one_sided_step x0 h num_steps lb ub =
    (let lower_dist = rsub x0 lb;
         upper_dist = esub ub x0;
         h_total = h * real num_steps
     in if (Fin (x0 + h_total) < lb \<or> ub < Fin (x0 + h_total))
           \<and> Fin \<bar>h_total\<bar> \<le> max lower_dist upper_dist
        then Fin (- h)
        else if lower_dist \<le> upper_dist then ediv upper_dist num_steps
        else ediv (emul (- 1) lower_dist) num_steps)"

text \<open>
  The definitions above are the code in exact arithmetic.  The arrays of the code hold
  float64 numbers, and every arithmetic operation returns the float64 nearest to the
  exact result, a tie going to the even significand.  \<open>fl64\<close> is this rounding for a
  result in the normal range of float64, where a number has 53 significant bits: \<open>x\<close>
  with binary exponent \<open>\<lfloor>log 2 \<bar>x\<bar>\<rfloor>\<close> is rounded to a multiple of 2 to the power
  \<open>\<lfloor>log 2 \<bar>x\<bar>\<rfloor> - 52\<close>.  Overflow and subnormal results are not modelled.
\<close>

definition round_half_even :: "real \<Rightarrow> int" where
  "round_half_even x =
    (let f = \<lfloor>x\<rfloor>; r = x - of_int f
     in if r < 1 / 2 then f else if 1 / 2 < r then f + 1 else if even f then f else f + 1)"

definition fl64 :: "real \<Rightarrow> real" where
  "fl64 x =
    (if x = 0 then 0
     else let e = \<lfloor>log 2 \<bar>x\<bar>\<rfloor> - 52
          in of_int (round_half_even (x / 2 powr of_int e)) * 2 powr of_int e)"

fun efl64 :: "ext \<Rightarrow> ext" where
  "efl64 (Fin x) = Fin (fl64 x)"
| "efl64 MInf = MInf"
| "efl64 PInf = PInf"

text \<open>
  Lines 56-71 for one variable, as \<open>one_sided_adjust\<close>, with the result of every
  addition, subtraction, multiplication and division rounded.  Negation, \<^verbatim>\<open>np.abs\<close>,
  \<^verbatim>\<open>np.maximum\<close> and the comparisons are exact in float64.
\<close>

definition one_sided_adjust_fl64 ::
  "real \<Rightarrow> real \<Rightarrow> nat \<Rightarrow> ext \<Rightarrow> ext \<Rightarrow> ext" where
  "one_sided_adjust_fl64 x0 h num_steps lb ub =
    (let h_total = fl64 (h * real num_steps);
         h_adjusted = Fin h;
         lower_dist = efl64 (rsub x0 lb);
         upper_dist = efl64 (esub ub x0);
         x = fl64 (x0 + h_total);
         violated = (Fin x < lb \<or> ub < Fin x);
         fitting = (Fin \<bar>h_total\<bar> \<le> max lower_dist upper_dist);
         h_adjusted = (if violated \<and> fitting then emul (- 1) h_adjusted else h_adjusted);
         forward = (lower_dist \<le> upper_dist \<and> \<not> fitting);
         h_adjusted = (if forward then efl64 (ediv upper_dist num_steps) else h_adjusted);
         backward = (upper_dist < lower_dist \<and> \<not> fitting);
         h_adjusted = (if backward then efl64 (ediv (emul (- 1) lower_dist) num_steps)
                       else h_adjusted)
     in h_adjusted)"

section \<open>Matrices\<close>

text \<open>
  A dense two-dimensional array is the list of its rows; its shape is
  \<open>(nrows, ncols)\<close>, so an array with no row has no column either.  A matrix of
  \<^verbatim>\<open>scipy.sparse\<close> is its shape and its stored entries; an entry that is not stored
  reads as zero.
\<close>

definition nrows :: "'a list list \<Rightarrow> nat" where
  "nrows A = length A"

definition ncols :: "'a list list \<Rightarrow> nat" where
  "ncols A = (if A = [] then 0 else length (hd A))"

record spmatrix =
  sp_nrows :: nat
  sp_ncols :: nat
  sp_data :: "nat \<times> nat \<Rightarrow> real option"

definition sp_get :: "spmatrix \<Rightarrow> nat \<Rightarrow> nat \<Rightarrow> real" where
  "sp_get S r c = (case sp_data S (r, c) of None \<Rightarrow> 0 | Some v \<Rightarrow> v)"

text \<open>
  A matrix argument (\<^verbatim>\<open>array_like or sparse matrix\<close>): a scalar, a one-dimensional
  or a two-dimensional array, an array of more than two dimensions, or a sparse matrix.
\<close>

datatype matrix_like =
    MScalar real
  | MVec "real list"
  | MArr2 "real list list"
  | MHigher
  | MSparse spmatrix

text \<open>\<^verbatim>\<open>np.atleast_2d\<close>, which leaves a sparse matrix to \<^verbatim>\<open>csc_matrix\<close>.\<close>

fun atleast_2d :: "matrix_like \<Rightarrow> matrix_like" where
  "atleast_2d (MScalar v) = MArr2 [[v]]"
| "atleast_2d (MVec v) = MArr2 [v]"
| "atleast_2d A = A"

fun issparse :: "matrix_like \<Rightarrow> bool" where
  "issparse (MSparse S) = True"
| "issparse A = False"

text \<open>\<^verbatim>\<open>A.ndim\<close>.\<close>

fun ndim :: "matrix_like \<Rightarrow> nat" where
  "ndim (MScalar v) = 0"
| "ndim (MVec v) = 1"
| "ndim (MArr2 A) = 2"
| "ndim MHigher = 3"
| "ndim (MSparse S) = 2"

text \<open>The shape of a two-dimensional matrix, and whether position \<open>(r, c)\<close> is
  structurally nonzero: a nonzero element of an array, a stored entry of a sparse matrix.\<close>

fun shape2 :: "matrix_like \<Rightarrow> nat \<times> nat" where
  "shape2 (MArr2 A) = (nrows A, ncols A)"
| "shape2 (MSparse S) = (sp_nrows S, sp_ncols S)"
| "shape2 (MScalar v) = (1, 1)"
| "shape2 (MVec v) = (1, length v)"
| "shape2 MHigher = (0, 0)"

fun structural :: "matrix_like \<Rightarrow> nat \<Rightarrow> nat \<Rightarrow> bool" where
  "structural (MArr2 A) r c = (A ! r ! c \<noteq> 0)"
| "structural (MSparse S) r c = (sp_data S (r, c) \<noteq> None)"
| "structural (MScalar v) r c = (v \<noteq> 0)"
| "structural (MVec v) r c = (v ! c \<noteq> 0)"
| "structural MHigher r c = False"

text \<open>The numeric value at \<open>(r, c)\<close> of a two-dimensional array or a sparse matrix.\<close>

fun element :: "matrix_like \<Rightarrow> nat \<Rightarrow> nat \<Rightarrow> real" where
  "element (MArr2 A) r c = A ! r ! c"
| "element (MSparse S) r c = sp_get S r c"
| "element (MScalar v) r c = v"
| "element (MVec v) r c = v ! c"
| "element MHigher r c = 0"

text \<open>
  Modelled from the spec: \<^verbatim>\<open>scipy.sparse.find\<close> and the column slicing
  \<^verbatim>\<open>structure[:, cols]\<close> are not part of the sources.  Sections 4.5 and 9 describe
  them as column slicing with nonzero enumeration: \<open>find_cols A cols\<close> lists the
  positions \<open>(r, k)\<close> of the nonzero elements of \<open>A[:, cols]\<close>, row by row, \<open>k\<close> being
  the position within \<open>cols\<close>.  A column index outside the matrix is an
  \<^verbatim>\<open>IndexError\<close>; a one-dimensional array cannot be sliced by two indices; an array of
  more than two dimensions is refused by \<^verbatim>\<open>find\<close>.
\<close>

definition find_cols :: "matrix_like \<Rightarrow> nat list \<Rightarrow> error + (nat \<times> nat) list" where
  "find_cols A cols =
    (case A of
       MHigher \<Rightarrow> Inl TypeError
     | MScalar v \<Rightarrow> Inl IndexError
     | MVec v \<Rightarrow> Inl IndexError
     | _ \<Rightarrow>
        if list_ex (\<lambda>c. snd (shape2 A) \<le> c) cols then Inl IndexError
        else Inr (concat (map (\<lambda>r. map (\<lambda>k. (r, k))
                     (filter (\<lambda>k. element A r (cols ! k) \<noteq> 0) [0..<length cols]))
                   [0..<fst (shape2 A)])))"



text \<open>
  Modelled from the spec: element scatter-assignment into a \<^verbatim>\<open>lil_matrix\<close>
  (section 9; not part of the sources).  \<^verbatim>\<open>J[i, j] = v\<close> stores \<open>v ! k\<close> at
  \<open>(i ! k, j ! k)\<close> for every \<open>k\<close>, a zero value leaving no stored entry at its
  position; a position outside the shape is an \<^verbatim>\<open>IndexError\<close>.
\<close>

fun sp_assign :: "spmatrix \<Rightarrow> ((nat \<times> nat) \<times> real) list \<Rightarrow> error + spmatrix" where
  "sp_assign J [] = Inr J"
| "sp_assign J (((r, c), v) # rest) =
    (if r < sp_nrows J \<and> c < sp_ncols J
     then sp_assign (J\<lparr>sp_data := (sp_data J)((r, c) := (if v = 0 then None else Some v))\<rparr>) rest
     else Inl IndexError)"

section \<open>One-dimensional array operations\<close>

text \<open>
  An elementwise binary operation of numpy on one-dimensional arrays: equal lengths, or
  one operand of length 1 that is broadcast; otherwise a \<^verbatim>\<open>ValueError\<close>.
\<close>

definition broadcast1 :: "('a \<Rightarrow> 'b \<Rightarrow> 'c) \<Rightarrow> 'a list \<Rightarrow> 'b list \<Rightarrow> error + 'c list" where
  "broadcast1 f xs ys =
    (if length xs = length ys then Inr (map2 f xs ys)
     else if length xs = 1 then Inr (map (f (hd xs)) ys)
     else if length ys = 1 then Inr (map (\<lambda>x. f x (hd ys)) xs)
     else Inl (ValueError ''operands could not be broadcast together''))"

definition nth_or_err :: "'a list \<Rightarrow> nat \<Rightarrow> error + 'a" where
  "nth_or_err xs i = (if i < length xs then Inr (xs ! i) else Inl IndexError)"

text \<open>Indexing by an index array: \<^verbatim>\<open>xs[idx]\<close>.\<close>

fun take_at :: "'a list \<Rightarrow> nat list \<Rightarrow> error + 'a list" where
  "take_at xs [] = Inr []"
| "take_at xs (i # rest) =
    ebind (nth_or_err xs i) (\<lambda>v. ebind (take_at xs rest) (\<lambda>vs. Inr (v # vs)))"

text \<open>Assignment through an index array: \<^verbatim>\<open>xs[idx] = vals\<close>, one value per index.\<close>

fun put_at :: "'a list \<Rightarrow> nat list \<Rightarrow> 'a list \<Rightarrow> error + 'a list" where
  "put_at xs [] vals = Inr xs"
| "put_at xs (i # rest) vals =
    (case vals of
       [] \<Rightarrow> Inl (ValueError ''shape mismatch'')
     | v # vs \<Rightarrow> if i < length xs then put_at (xs[i := v]) rest vs else Inl IndexError)"

text \<open>
  A boolean mask selects positions of an array of the same length:
  \<^verbatim>\<open>x[mask] = x[mask] + c * v[mask]\<close>, and \<^verbatim>\<open>x[mask] = a[mask] - b[mask]\<close>.
\<close>

definition masked_update ::
  "real list \<Rightarrow> bool list \<Rightarrow> (nat \<Rightarrow> real) \<Rightarrow> nat list \<Rightarrow> error + real list" where
  "masked_update x msk upd lens =
    (if list_all (\<lambda>l. l = length msk) (length x # lens)
     then Inr (vec (length x) (\<lambda>k. if msk ! k then upd k else x ! k))
     else Inl IndexError)"


text \<open>
  The elementwise quotient \<^verbatim>\<open>xs / ys\<close> of two arrays of the same length, which ends
  with \<open>NanOrInf\<close> when a divisor is zero.
\<close>

definition np_divide :: "real list \<Rightarrow> real list \<Rightarrow> error + real list" where
  "np_divide xs ys =
    (if list_ex (\<lambda>y. y = 0) (take (length xs) ys) then Inl NanOrInf
     else Inr (map2 (/) xs ys))"

section \<open>ColumnGrouper\<close>

text \<open>
  Modelled from the spec: \<^verbatim>\<open>group_dense\<close> and \<^verbatim>\<open>group_sparse\<close> of the compiled
  module \<^verbatim>\<open>_group_columns\<close> are not part of the sources.  Section 4.4: a greedy
  sequential coloring that scans the columns in order and assigns to each the lowest
  group id not yet used by any previously assigned column that shares a nonzero row with
  it.  \<open>lowest_unused used\<close> is the lowest id not in \<open>used\<close> (one of
  \<open>0, ..., length used\<close> is free); \<open>greedy_scan share js groups\<close> scans the columns
  \<open>js\<close>, \<open>groups\<close> holding the ids of the columns before them and \<open>share i j\<close>
  telling whether columns \<open>i\<close> and \<open>j\<close> have a nonzero in a common row.
\<close>

definition lowest_unused :: "nat list \<Rightarrow> nat" where
  "lowest_unused used =
    (case List.find (\<lambda>g. g \<notin> set used) [0..<Suc (length used)] of
       Some g \<Rightarrow> g
     | None \<Rightarrow> Suc (length used))"

fun greedy_scan :: "(nat \<Rightarrow> nat \<Rightarrow> bool) \<Rightarrow> nat list \<Rightarrow> nat list \<Rightarrow> nat list" where
  "greedy_scan share [] groups = groups"
| "greedy_scan share (j # js) groups =
    greedy_scan share js
      (groups @ [lowest_unused (map (\<lambda>i. groups ! i)
                                  (filter (\<lambda>i. share i j) [0..<length groups]))])"

text \<open>
  What the scan maintains, for the columns colored so far: a column differs in its id
  from every earlier column it shares a row with, and every id below its own is taken
  by an earlier column.
\<close>

definition valid_coloring :: "(nat \<Rightarrow> nat \<Rightarrow> bool) \<Rightarrow> nat list \<Rightarrow> bool" where
  "valid_coloring share gs =
    (\<forall>b<length gs. (\<forall>a<b. share a b \<longrightarrow> gs ! a \<noteq> gs ! b) \<and> (\<forall>g<gs ! b. \<exists>a<b. gs ! a = g))"

text \<open>
  Modelled from the spec: \<^verbatim>\<open>group_dense(m, n, A)\<close>, \<open>A\<close> the \<open>m\<close> by \<open>n\<close> array
  of zeros and ones of line 149 (its rows).
\<close>

definition group_dense :: "nat \<Rightarrow> nat \<Rightarrow> int list list \<Rightarrow> nat list" where
  "group_dense m n A =
    greedy_scan (\<lambda>i j. list_ex (\<lambda>r. 0 < A ! r ! i \<and> 0 < A ! r ! j) [0..<m]) [0..<n] []"

text \<open>
  Modelled from the spec: \<^verbatim>\<open>group_sparse(m, n, A.indices, A.indptr)\<close>.  The two
  arrays of the compressed-column layout are given as the list of their column slices:
  \<open>cols ! j\<close> is \<^verbatim>\<open>indices[indptr[j]:indptr[j+1]]\<close>, the rows stored in column \<open>j\<close>.
\<close>

definition group_sparse :: "nat \<Rightarrow> nat \<Rightarrow> nat list list \<Rightarrow> nat list" where
  "group_sparse m n cols =
    greedy_scan (\<lambda>i j. list_ex (\<lambda>r. r \<in> set (cols ! j)) (cols ! i)) [0..<n] []"

text \<open>
  \<^verbatim>\<open>group_columns\<close> (lines 117-169).  \<open>shuffle\<close> stands for
  \<^verbatim>\<open>np.random.shuffle\<close>: it maps \<^verbatim>\<open>np.arange(n)\<close> to the order drawn when no
  \<open>order\<close> is given.  \<open>order\<close> is documented as a permutation array: an index that is
  not a column is the \<^verbatim>\<open>IndexError\<close> of line 160, and an order of another length
  than \<open>n\<close> fails at the assignment of line 167.
\<close>

definition group_columns ::
  "(nat list \<Rightarrow> nat list) \<Rightarrow> matrix_like \<Rightarrow> nat list option \<Rightarrow> error + nat list" where
  "group_columns shuffle A_arg order_arg =
    (let A = (if issparse A_arg then A_arg else atleast_2d A_arg) in
     if ndim A \<noteq> 2 then Inl (ValueError ''A must be 2-dimensional.'')
     else
       let (m, n) = shape2 A;
           order = (case order_arg of None \<Rightarrow> shuffle [0..<n] | Some ord \<Rightarrow> ord)
       in
       if list_ex (\<lambda>c. n \<le> c) order then Inl IndexError
       else
         let groups =
               (case A of
                  MSparse S \<Rightarrow>
                    group_sparse m n
                      (map (\<lambda>c. filter (\<lambda>r. sp_data S (r, c) \<noteq> None) [0..<m]) order)
                | _ \<Rightarrow>
                    group_dense m n
                      (vec m (\<lambda>r. map (\<lambda>c. if element A r c \<noteq> 0 then 1 else 0) order)))
         in
         if length order \<noteq> length groups then Inl (ValueError ''shape mismatch'')
         else put_at groups order groups)"

section \<open>DenseDifferencer\<close>

text \<open>
  The wrapper of lines 309-314 around the user function, which returns a scalar, a
  one-dimensional array, or an array of more dimensions (a \<^verbatim>\<open>RuntimeError\<close>).
\<close>

definition fun_wrapped :: "(real list \<Rightarrow> real array_like) \<Rightarrow> real list \<Rightarrow> error + real list" where
  "fun_wrapped func x =
    (case func x of
       Scalar v \<Rightarrow> Inr [v]
     | Arr1 v \<Rightarrow> Inr v
     | ArrN \<Rightarrow> Inl (RuntimeError ''fun return value has more than 1 dimension.''))"

text \<open>
  The result of \<^verbatim>\<open>approx_derivative\<close>: a gradient of shape \<open>(n,)\<close>, a dense Jacobian
  (its \<open>m\<close> rows), or a sparse Jacobian.  The same type holds what the analytic
  Jacobian function of \<^verbatim>\<open>check_derivative\<close> returns.
\<close>

datatype jacobian =
    Dense1 "real list"
  | Dense2 "real list list"
  | SparseJ spmatrix

text \<open>Row \<open>i\<close> of \<^verbatim>\<open>np.diag(h)\<close>.\<close>

definition diag_row :: "real list \<Rightarrow> nat \<Rightarrow> real list" where
  "diag_row h i = vec (length h) (\<lambda>k. if k = i then h ! i else 0)"

text \<open>
  The body of the loop of \<^verbatim>\<open>_dense_difference\<close> up to \<open>df / dx\<close> (lines 355-373).
  The scalar \<open>dx\<close> divides every element of \<open>df\<close>; a zero \<open>dx\<close> ends the call with
  \<open>NanOrInf\<close>.  A method other than the two leaves \<open>df\<close> unbound.
\<close>

definition dense_column ::
  "(real list \<Rightarrow> error + real list) \<Rightarrow> real list \<Rightarrow> real list \<Rightarrow> real list \<Rightarrow> bool list
    \<Rightarrow> string \<Rightarrow> nat \<Rightarrow> error + real list" where
  "dense_column func x0 f0 h use_one_sided method i =
    (if method = ''2-point'' then
       ebind (broadcast1 (+) x0 (diag_row h i)) (\<lambda>x.
       ebind (nth_or_err x i) (\<lambda>x_i.
       ebind (nth_or_err x0 i) (\<lambda>x0_i.
       let dx = x_i - x0_i in
       ebind (func x) (\<lambda>fx.
       ebind (broadcast1 (-) fx f0) (\<lambda>df.
       np_divide df (map (\<lambda>d. dx) df))))))
     else if method = ''3-point'' then
       ebind (nth_or_err use_one_sided i) (\<lambda>one_sided.
       if one_sided then
         ebind (broadcast1 (+) x0 (diag_row h i)) (\<lambda>x1.
         ebind (broadcast1 (+) x0 (map (\<lambda>v. 2 * v) (diag_row h i))) (\<lambda>x2.
         ebind (nth_or_err x2 i) (\<lambda>x2_i.
         ebind (nth_or_err x0 i) (\<lambda>x0_i.
         let dx = x2_i - x0_i in
         ebind (func x1) (\<lambda>f1.
         ebind (func x2) (\<lambda>f2.
         ebind (broadcast1 (+) (map (\<lambda>v. - 3 * v) f0) (map (\<lambda>v. 4 * v) f1)) (\<lambda>s.
         ebind (broadcast1 (-) s f2) (\<lambda>df.
         np_divide df (map (\<lambda>d. dx) df)))))))))
       else
         ebind (broadcast1 (-) x0 (diag_row h i)) (\<lambda>x1.
         ebind (broadcast1 (+) x0 (diag_row h i)) (\<lambda>x2.
         ebind (nth_or_err x2 i) (\<lambda>x2_i.
         ebind (nth_or_err x1 i) (\<lambda>x1_i.
         let dx = x2_i - x1_i in
         ebind (func x1) (\<lambda>f1.
         ebind (func x2) (\<lambda>f2.
         ebind (broadcast1 (-) f2 f1) (\<lambda>df.
         np_divide df (map (\<lambda>d. dx) df)))))))))
     else Inl UnboundLocalError)"

text \<open>
  \<^verbatim>\<open>J_transposed[i] = df / dx\<close> (line 373): row \<open>i\<close> of an array with rows of length
  \<open>m\<close> takes a value of length \<open>m\<close>, or of length 1 by broadcasting.
\<close>

definition set_row :: "real list list \<Rightarrow> nat \<Rightarrow> nat \<Rightarrow> real list \<Rightarrow> error + real list list" where
  "set_row J i m v =
    (if length J \<le> i then Inl IndexError
     else if length v = m then Inr (J[i := v])
     else if length v = 1 then Inr (J[i := replicate m (hd v)])
     else Inl (ValueError ''could not broadcast input array''))"

fun dense_loop ::
  "(nat \<Rightarrow> error + real list) \<Rightarrow> nat \<Rightarrow> nat list \<Rightarrow> real list list \<Rightarrow> error + real list list" where
  "dense_loop column m [] J_transposed = Inr J_transposed"
| "dense_loop column m (i # rest) J_transposed =
    ebind (column i) (\<lambda>v.
    ebind (set_row J_transposed i m v) (\<lambda>J'.
    dense_loop column m rest J'))"

text \<open>
  \<^verbatim>\<open>_dense_difference\<close> (lines 348-378).  \<^verbatim>\<open>np.empty((n, m))\<close> has unspecified
  contents, modelled as zeros; the loop overwrites every row when \<open>h\<close> has the length of
  \<open>x0\<close>.  The result is the transpose: \<open>m\<close> rows of length \<open>n\<close>, or the flat array
  when \<open>m = 1\<close>.
\<close>

definition dense_difference ::
  "(real list \<Rightarrow> error + real list) \<Rightarrow> real list \<Rightarrow> real list \<Rightarrow> real list \<Rightarrow> bool list
    \<Rightarrow> string \<Rightarrow> error + jacobian" where
  "dense_difference func x0 f0 h use_one_sided method =
    (let m = length f0;
         n = length x0;
         J_transposed = replicate n (replicate m 0)
     in ebind (dense_loop (dense_column func x0 f0 h use_one_sided method) m
                 [0..<length h] J_transposed) (\<lambda>J_transposed.
        if m = 1 then Inr (Dense1 (concat J_transposed))
        else Inr (Dense2 (vec m (\<lambda>r. vec n (\<lambda>c. J_transposed ! c ! r))))))"

section \<open>SparseDifferencer\<close>

text \<open>
  The body of the loop of \<^verbatim>\<open>_sparse_difference\<close> (lines 388-429) for one group: the
  positions \<open>(i, j)\<close> and the values \<open>df[i] / dx[j]\<close> that line 429 assigns.
  \<^verbatim>\<open>np.empty(m)\<close> and \<^verbatim>\<open>np.zeros(n)\<close> are both zeros here.
\<close>

definition sparse_group ::
  "(real list \<Rightarrow> error + real list) \<Rightarrow> real list \<Rightarrow> real list \<Rightarrow> real list \<Rightarrow> bool list
    \<Rightarrow> matrix_like \<Rightarrow> nat list \<Rightarrow> string \<Rightarrow> nat \<Rightarrow> error + ((nat \<times> nat) \<times> real) list" where
  "sparse_group func x0 f0 h use_one_sided structure groups method grp =
    (let m = length f0;
         n = length x0;
         e = map (\<lambda>g. grp = g) groups
     in
     ebind (broadcast1 (\<lambda>a b. a * (if b then 1 else 0)) h e) (\<lambda>h_vec.
     if method = ''2-point'' then
       ebind (broadcast1 (+) x0 h_vec) (\<lambda>x.
       ebind (broadcast1 (-) x x0) (\<lambda>dx.
       ebind (func x) (\<lambda>fx.
       ebind (broadcast1 (-) fx f0) (\<lambda>df.
       let cols = filter (\<lambda>c. e ! c) [0..<length e] in
       ebind (find_cols structure cols) (\<lambda>ij.
       let i = map fst ij;
           j = map (\<lambda>(r, k). cols ! k) ij
       in
       ebind (take_at df i) (\<lambda>df_i.
       ebind (take_at dx j) (\<lambda>dx_j.
       ebind (np_divide df_i dx_j) (\<lambda>v. Inr (zip (zip i j) v)))))))))
     else if method = ''3-point'' then
       let x1 = x0; x2 = x0 in
       ebind (broadcast1 (\<and>) use_one_sided e) (\<lambda>mask_1.
       ebind (masked_update x1 mask_1 (\<lambda>k. x1 ! k + h_vec ! k) [length h_vec]) (\<lambda>x1.
       ebind (masked_update x2 mask_1 (\<lambda>k. x2 ! k + 2 * h_vec ! k) [length h_vec]) (\<lambda>x2.
       ebind (broadcast1 (\<and>) (map Not use_one_sided) e) (\<lambda>mask_2.
       ebind (masked_update x1 mask_2 (\<lambda>k. x1 ! k - h_vec ! k) [length h_vec]) (\<lambda>x1.
       ebind (masked_update x2 mask_2 (\<lambda>k. x2 ! k + h_vec ! k) [length h_vec]) (\<lambda>x2.
       let dx = replicate n 0 in
       ebind (masked_update dx mask_1 (\<lambda>k. x2 ! k - x0 ! k) [length x2, length x0]) (\<lambda>dx.
       ebind (masked_update dx mask_2 (\<lambda>k. x2 ! k - x1 ! k) [length x2, length x1]) (\<lambda>dx.
       ebind (func x1) (\<lambda>f1.
       ebind (func x2) (\<lambda>f2.
       let cols = filter (\<lambda>c. e ! c) [0..<length e] in
       ebind (find_cols structure cols) (\<lambda>ij.
       let i = map fst ij;
           j = map (\<lambda>(r, k). cols ! k) ij
       in
       ebind (take_at use_one_sided j) (\<lambda>mask.
       let df = replicate m 0;
           rows = map fst (filter snd (zip i mask))
       in
       ebind (take_at f0 rows) (\<lambda>f0_rows.
       ebind (take_at f1 rows) (\<lambda>f1_rows.
       ebind (take_at f2 rows) (\<lambda>f2_rows.
       ebind (put_at df rows
                (map (\<lambda>(a, b, c). - 3 * a + 4 * b - c) (zip f0_rows (zip f1_rows f2_rows)))) (\<lambda>df.
       let rows = map fst (filter (\<lambda>(r, b). \<not> b) (zip i mask)) in
       ebind (take_at f2 rows) (\<lambda>f2_rows.
       ebind (take_at f1 rows) (\<lambda>f1_rows.
       ebind (put_at df rows (map2 (-) f2_rows f1_rows)) (\<lambda>df.
       ebind (take_at df i) (\<lambda>df_i.
       ebind (take_at dx j) (\<lambda>dx_j.
       ebind (np_divide df_i dx_j) (\<lambda>v. Inr (zip (zip i j) v)))))))))))))))))))))))
     else Inl UnboundLocalError))"

fun sparse_loop ::
  "(nat \<Rightarrow> error + ((nat \<times> nat) \<times> real) list) \<Rightarrow> nat list \<Rightarrow> spmatrix \<Rightarrow> error + spmatrix" where
  "sparse_loop body [] J = Inr J"
| "sparse_loop body (grp # rest) J =
    ebind (body grp) (\<lambda>entries.
    ebind (sp_assign J entries) (\<lambda>J'.
    sparse_loop body rest J'))"

text \<open>
  \<^verbatim>\<open>_sparse_difference\<close> (lines 381-431).  \<^verbatim>\<open>np.max(groups)\<close> of no column is a
  \<^verbatim>\<open>ValueError\<close>.
\<close>

definition sparse_difference ::
  "(real list \<Rightarrow> error + real list) \<Rightarrow> real list \<Rightarrow> real list \<Rightarrow> real list \<Rightarrow> bool list
    \<Rightarrow> matrix_like \<Rightarrow> nat list \<Rightarrow> string \<Rightarrow> error + spmatrix" where
  "sparse_difference func x0 f0 h use_one_sided structure groups method =
    (let m = length f0;
         n = length x0;
         J = \<lparr>sp_nrows = m, sp_ncols = n, sp_data = (\<lambda>p. None)\<rparr>
     in
     if groups = [] then Inl (ValueError ''zero-size array to reduction operation maximum'')
     else
       let n_groups = Max (set groups) + 1 in
       sparse_loop (sparse_group func x0 f0 h use_one_sided structure groups method)
         [0..<n_groups] J)"


section \<open>approx_derivative\<close>

text \<open>\<^verbatim>\<open>_prepare_bounds\<close> (lines 106-114): a scalar bound is repeated for every variable.\<close>

definition prepare_bounds ::
  "ext array_like \<times> ext array_like \<Rightarrow> real list \<Rightarrow> ext array_like \<times> ext array_like" where
  "prepare_bounds bounds x0 =
    (let resize = (\<lambda>b. case b of Scalar v \<Rightarrow> Arr1 (replicate (length x0) v) | _ \<Rightarrow> b)
     in (resize (fst bounds), resize (snd bounds)))"

text \<open>
  \<^verbatim>\<open>approx_derivative\<close> (lines 297-345).  The extra arguments \<open>args\<close> and
  \<open>kwargs\<close> are part of \<open>func\<close>.  The first component of the result lists the points at
  which \<open>func\<close> has been called when the validation of the arguments ends (line 324):
  the evaluation of \<open>f0\<close> at line 317, or none.  The second is the outcome.  The steps
  that \<open>adjust_scheme_to_bounds\<close> returns are finite (see
  \<open>adjusted_steps_within_bounds\<close>) and are passed on as reals.
\<close>

definition approx_derivative ::
  "(real list \<Rightarrow> real array_like) \<Rightarrow> real array_like \<Rightarrow> string \<Rightarrow> real option
    \<Rightarrow> real array_like option \<Rightarrow> ext array_like \<times> ext array_like
    \<Rightarrow> (matrix_like \<times> nat list) option \<Rightarrow> real list list \<times> (error + jacobian)" where
  "approx_derivative func x0_arg method rel_step f0_arg bounds sparsity =
    (if method \<noteq> ''2-point'' \<and> method \<noteq> ''3-point''
     then ([], Inl (ValueError ''method must be 2-point or 3-point.''))
     else if x0_arg = ArrN
     then ([], Inl (ValueError ''x0 must have at most 1 dimension.''))
     else
       let x0 = (case x0_arg of Scalar v \<Rightarrow> [v] | Arr1 v \<Rightarrow> v | ArrN \<Rightarrow> []) in
       (case prepare_bounds bounds x0 of
          (Arr1 lb, Arr1 ub) \<Rightarrow>
            (if length lb \<noteq> length x0 \<or> length ub \<noteq> length x0
             then ([], Inl (ValueError ''Inconsistent shapes between bounds and x0.''))
             else
               let (calls, f0_result) =
                     (case f0_arg of
                        None \<Rightarrow> ([x0], fun_wrapped func x0)
                      | Some (Scalar v) \<Rightarrow> ([], Inr [v])
                      | Some (Arr1 v) \<Rightarrow> ([], Inr v)
                      | Some ArrN \<Rightarrow> ([], Inl (ValueError ''f0 passed has more than 1 dimension.'')))
               in
               (calls,
                ebind f0_result (\<lambda>f0.
                if list_ex (\<lambda>i. Fin (x0 ! i) < lb ! i \<or> ub ! i < Fin (x0 ! i)) [0..<length x0]
                then Inl (ValueError ''x0 violates bound constraints.'')
                else
                  ebind (compute_absolute_step rel_step x0 method) (\<lambda>h.
                  ebind (if method = ''2-point''
                         then adjust_scheme_to_bounds x0 h 1 ''1-sided'' lb ub
                         else adjust_scheme_to_bounds x0 h 1 ''2-sided'' lb ub) (\<lambda>(h_ext, use_one_sided).
                  let h = map real_of_ext h_ext in
                  (case sparsity of
                     None \<Rightarrow> dense_difference (fun_wrapped func) x0 f0 h use_one_sided method
                   | Some (structure_arg, groups) \<Rightarrow>
                       (let structure = (if issparse structure_arg then structure_arg
                                         else atleast_2d structure_arg)
                        in ebind (sparse_difference (fun_wrapped func) x0 f0 h use_one_sided
                                    structure groups method) (\<lambda>J. Inr (SparseJ J)))))))))
        | _ \<Rightarrow> ([], Inl (ValueError ''Inconsistent shapes between bounds and x0.''))))"

section \<open>DerivativeChecker\<close>





section \<open>Example inputs\<close>



text \<open>
  A point on its upper bound: \<open>x0_float\<close> and \<open>lb_float\<close> are the float64 numbers of
  the literals \<^verbatim>\<open>6e-10\<close> and \<^verbatim>\<open>1e-10\<close>, and \<open>lower_dist_float\<close> is the float64
  that the subtraction \<^verbatim>\<open>x0 - lb\<close> returns for them.
\<close>

definition x0_float :: real where
  "x0_float = 1450710983537555 / 2 ^ 81"

definition lb_float :: real where
  "lb_float = 7737125245533627 / 2 ^ 86"

definition lower_dist_float :: real where
  "lower_dist_float = 4835703278458517 / 2 ^ 83"


section \<open>Properties\<close>

subsection \<open>Arrays\<close>

lemma length_vec: "length (vec n f) = n"
  by (simp add: vec_def)

lemma nth_vec: "i < n \<Longrightarrow> vec n f ! i = f i"
  by (simp add: vec_def)

lemma np_divide_scalar:
  "dx \<noteq> 0 \<Longrightarrow> np_divide df (map (\<lambda>d. dx) df) = Inr (map (\<lambda>d. d / dx) df)"
  by (induction df) (auto simp: np_divide_def list_ex_iff dest: in_set_takeD)


lemma unbounded_nth:
  assumes "list_all (\<lambda>(l, u). l = MInf \<and> u = PInf) (zip lb ub)"
    and "length lb = n" "length ub = n" "i < n"
  shows "lb ! i = MInf \<and> ub ! i = PInf"
  using assms by (auto simp: list_all_length)

subsection \<open>StepPlanner: the one-sided rule\<close>

lemma one_sided_adjust_cases:
  "one_sided_adjust x h k l u =
    (if Fin \<bar>h * real k\<bar> \<le> max (rsub x l) (esub u x)
     then (if Fin (x + h * real k) < l \<or> u < Fin (x + h * real k) then Fin (- h) else Fin h)
     else if rsub x l \<le> esub u x then ediv (esub u x) k
     else ediv (emul (- 1) (rsub x l)) k)"
  by (cases l; cases u) (auto simp: one_sided_adjust_def Let_def ediv_def)

text \<open>
  \<^bold>\<open>C5\<close>, as stated, fails.  The claim reads the clamping branch as the alternative of
  the sign flip, so a step that fits and stays inside the interval would be replaced by
  the distance to the farther bound.  At \<open>x0 = 0\<close>, \<open>h = 1/2\<close>, \<open>lb = -1\<close>, \<open>ub = 1\<close>
  the code keeps \<open>h = 1/2\<close>, where the claimed rule gives \<open>1\<close>.
\<close>

theorem one_sided_claim_counterexample:
  "adjust_scheme_to_bounds [0] [1 / 2] 1 ''1-sided'' [Fin (- 1)] [Fin 1] = Inr ([Fin (1 / 2)], [True])
   \<and> claimed_one_sided_step 0 (1 / 2) 1 (Fin (- 1)) (Fin 1) = Fin 1"
  by (simp add: adjust_scheme_to_bounds_def vec_def one_sided_adjust_def
      claimed_one_sided_step_def Let_def ediv_def)

text \<open>
  \<^bold>\<open>C5\<close>, amended.  In the one-sided adjustment with at least one finite bound, for each
  variable: if \<open>|h * num_steps|\<close> does not exceed \<open>max (x0 - lb) (ub - x0)\<close>, the sign
  of \<open>h\<close> is flipped when the unmodified step would leave the bound interval and \<open>h\<close> is
  kept as it is when it would not; otherwise \<open>h\<close> is set to \<open>(ub - x0) / num_steps\<close>
  when \<open>ub - x0 \<ge> x0 - lb\<close> and to \<open>- (x0 - lb) / num_steps\<close> when \<open>ub - x0 < x0 - lb\<close>.
  Every variable is marked one-sided.
\<close>

theorem one_sided_adjustment:
  assumes "length h = n" and "i < n"
    and "\<not> list_all (\<lambda>(l, u). l = MInf \<and> u = PInf) (zip lb ub)"
  shows "\<exists>hs. adjust_scheme_to_bounds x0 h num_steps ''1-sided'' lb ub = Inr (hs, replicate n True)
      \<and> length hs = n
      \<and> hs ! i =
        (let lower_dist = rsub (x0 ! i) (lb ! i);
             upper_dist = esub (ub ! i) (x0 ! i);
             h_total = h ! i * real num_steps;
             x = x0 ! i + h_total
         in if Fin \<bar>h_total\<bar> \<le> max lower_dist upper_dist
            then (if Fin x < lb ! i \<or> ub ! i < Fin x then Fin (- (h ! i)) else Fin (h ! i))
            else if lower_dist \<le> upper_dist then ediv upper_dist num_steps
            else ediv (emul (- 1) lower_dist) num_steps)"
  using assms
  by (simp add: adjust_scheme_to_bounds_def length_vec nth_vec one_sided_adjust_cases Let_def)

theorem one_sided_adjustment_witness:
  "\<exists>hs. adjust_scheme_to_bounds [0, 3] [1 / 2, 2] 1 ''1-sided'' [Fin (- 1), Fin 0] [Fin 1, Fin 4]
          = Inr (hs, [True, True])
      \<and> length hs = 2 \<and> hs ! 1 = Fin (- 2)"
  using one_sided_adjustment [of "[1 / 2, 2]" 2 1 "[Fin (- 1), Fin 0]" "[Fin 1, Fin 4]" "[0, 3]" 1]
  by (simp add: Let_def numeral_2_eq_2)

subsection \<open>StepPlanner: the adjusted steps stay inside the bounds\<close>

lemma one_sided_adjust_in_bounds:
  fixes h :: real
  assumes "l \<le> Fin x" "Fin x \<le> u"
  defines "v \<equiv> real_of_ext (one_sided_adjust x h 1 l u)"
  shows "one_sided_adjust x h 1 l u = Fin v \<and> l \<le> Fin (x + v) \<and> Fin (x + v) \<le> u"
  using assms(1,2) unfolding v_def
  by (cases l; cases u) (auto simp: one_sided_adjust_cases ediv_def max_def)

lemma two_sided_adjust_in_bounds:
  fixes h :: real
  assumes "l \<le> Fin x" "Fin x \<le> u" "0 \<le> h"
  defines "r \<equiv> two_sided_adjust x h 1 l u"
  defines "v \<equiv> real_of_ext (fst r)"
  shows "fst r = Fin v \<and>
     (if snd r
      then l \<le> Fin (x + v) \<and> Fin (x + v) \<le> u \<and> l \<le> Fin (x + 2 * v) \<and> Fin (x + 2 * v) \<le> u
      else l \<le> Fin (x - v) \<and> Fin (x - v) \<le> u \<and> l \<le> Fin (x + v) \<and> Fin (x + v) \<le> u)"
  using assms(1-3) unfolding r_def v_def
  by (cases l; cases u; auto simp: two_sided_adjust_def Let_def ediv_def min_def; (simp add: field_simps)?)

lemma map_Fin_vec: "map Fin (vec n f) = vec n (\<lambda>i. Fin (f i))"
  by (simp add: vec_def)

lemma vec_eqI: "(\<And>i. i < n \<Longrightarrow> f i = g i) \<Longrightarrow> vec n f = vec n g"
  by (simp add: vec_def)

lemma two_point_steps_within_bounds:
  assumes len: "length x0 = n" "length h = n" "length lb = n" "length ub = n"
    and inb: "\<forall>i<n. lb ! i \<le> Fin (x0 ! i) \<and> Fin (x0 ! i) \<le> ub ! i"
  shows "\<exists>hs us. adjust_scheme_to_bounds x0 h 1 ''1-sided'' lb ub = Inr (map Fin hs, us)
      \<and> length hs = n
      \<and> (\<forall>i<n. lb ! i \<le> Fin (x0 ! i + hs ! i) \<and> Fin (x0 ! i + hs ! i) \<le> ub ! i)"
proof (cases "list_all (\<lambda>(l, u). l = MInf \<and> u = PInf) (zip lb ub)")
  case True
  have "adjust_scheme_to_bounds x0 h 1 ''1-sided'' lb ub = Inr (map Fin h, replicate n True)"
    using True len by (simp add: adjust_scheme_to_bounds_def)
  moreover have "\<forall>i<n. lb ! i \<le> Fin (x0 ! i + h ! i) \<and> Fin (x0 ! i + h ! i) \<le> ub ! i"
    using unbounded_nth [OF True len(3,4)] by simp
  ultimately show ?thesis using len by blast
next
  case False
  define hs where "hs = vec n (\<lambda>i. real_of_ext (one_sided_adjust (x0 ! i) (h ! i) 1 (lb ! i) (ub ! i)))"
  have step: "one_sided_adjust (x0 ! i) (h ! i) 1 (lb ! i) (ub ! i) = Fin (hs ! i)
      \<and> lb ! i \<le> Fin (x0 ! i + hs ! i) \<and> Fin (x0 ! i + hs ! i) \<le> ub ! i" if "i < n" for i
    using one_sided_adjust_in_bounds [of "lb ! i" "x0 ! i" "ub ! i" "h ! i"] inb that
    by (simp add: hs_def nth_vec)
  have "map Fin hs = vec n (\<lambda>i. one_sided_adjust (x0 ! i) (h ! i) 1 (lb ! i) (ub ! i))"
    unfolding hs_def map_Fin_vec
    by (rule vec_eqI) (use step in \<open>simp add: hs_def nth_vec\<close>)
  then have "adjust_scheme_to_bounds x0 h 1 ''1-sided'' lb ub = Inr (map Fin hs, replicate n True)"
    using False len by (simp add: adjust_scheme_to_bounds_def)
  moreover have "length hs = n"
    by (simp add: hs_def length_vec)
  ultimately show ?thesis using step by blast
qed

lemma three_point_steps_within_bounds:
  assumes len: "length x0 = n" "length h = n" "length lb = n" "length ub = n"
    and inb: "\<forall>i<n. lb ! i \<le> Fin (x0 ! i) \<and> Fin (x0 ! i) \<le> ub ! i"
  shows "\<exists>hs us. adjust_scheme_to_bounds x0 h 1 ''2-sided'' lb ub = Inr (map Fin hs, us)
      \<and> length hs = n \<and> length us = n
      \<and> (\<forall>i<n. if us ! i
            then lb ! i \<le> Fin (x0 ! i + hs ! i) \<and> Fin (x0 ! i + hs ! i) \<le> ub ! i
               \<and> lb ! i \<le> Fin (x0 ! i + 2 * hs ! i) \<and> Fin (x0 ! i + 2 * hs ! i) \<le> ub ! i
            else lb ! i \<le> Fin (x0 ! i - hs ! i) \<and> Fin (x0 ! i - hs ! i) \<le> ub ! i
               \<and> lb ! i \<le> Fin (x0 ! i + hs ! i) \<and> Fin (x0 ! i + hs ! i) \<le> ub ! i)"
proof (cases "list_all (\<lambda>(l, u). l = MInf \<and> u = PInf) (zip lb ub)")
  case True
  have "adjust_scheme_to_bounds x0 h 1 ''2-sided'' lb ub = Inr (map Fin (map abs h), replicate n False)"
    using True len by (simp add: adjust_scheme_to_bounds_def)
  moreover have "\<forall>i<n. lb ! i = MInf \<and> ub ! i = PInf"
    using unbounded_nth [OF True len(3,4)] by simp
  ultimately show ?thesis
    using len by (intro exI [of _ "map abs h"] exI [of _ "replicate n False"]) simp
next
  case False
  define r where "r = (\<lambda>i. two_sided_adjust (x0 ! i) \<bar>h ! i\<bar> 1 (lb ! i) (ub ! i))"
  define hs where "hs = vec n (\<lambda>i. real_of_ext (fst (r i)))"
  define us where "us = vec n (\<lambda>i. snd (r i))"
  have step: "fst (r i) = Fin (hs ! i) \<and>
      (if us ! i
       then lb ! i \<le> Fin (x0 ! i + hs ! i) \<and> Fin (x0 ! i + hs ! i) \<le> ub ! i
          \<and> lb ! i \<le> Fin (x0 ! i + 2 * hs ! i) \<and> Fin (x0 ! i + 2 * hs ! i) \<le> ub ! i
       else lb ! i \<le> Fin (x0 ! i - hs ! i) \<and> Fin (x0 ! i - hs ! i) \<le> ub ! i
          \<and> lb ! i \<le> Fin (x0 ! i + hs ! i) \<and> Fin (x0 ! i + hs ! i) \<le> ub ! i)" if "i < n" for i
  proof -
    have "lb ! i \<le> Fin (x0 ! i)" "Fin (x0 ! i) \<le> ub ! i"
      using inb that by auto
    from two_sided_adjust_in_bounds [OF this abs_ge_zero, of "h ! i"]
    show ?thesis
      unfolding hs_def us_def nth_vec [OF that] r_def .
  qed
  have "vec n (\<lambda>i. fst (two_sided_adjust (x0 ! i) (map abs h ! i) 1 (lb ! i) (ub ! i))) = map Fin hs"
    unfolding hs_def map_Fin_vec
    by (rule vec_eqI) (use step len in \<open>simp add: hs_def nth_vec r_def\<close>)
  moreover have "vec n (\<lambda>i. snd (two_sided_adjust (x0 ! i) (map abs h ! i) 1 (lb ! i) (ub ! i))) = us"
    unfolding us_def
    by (rule vec_eqI) (use len in \<open>simp add: r_def\<close>)
  ultimately have "adjust_scheme_to_bounds x0 h 1 ''2-sided'' lb ub = Inr (map Fin hs, us)"
    using False len by (simp add: adjust_scheme_to_bounds_def)
  moreover have "length hs = n" "length us = n"
    by (simp_all add: hs_def us_def length_vec)
  ultimately show ?thesis using step by blast
qed

text \<open>
  In exact arithmetic the adjustment keeps every evaluation point inside the bounds.
  Let \<open>lb \<le> x0 \<le> ub\<close> componentwise.  With the arguments of
  \<^verbatim>\<open>approx_derivative\<close> (\<open>num_steps = 1\<close>; scheme \<open>1-sided\<close> for the 2-point method,
  \<open>2-sided\<close> for the 3-point method), \<open>adjust_scheme_to_bounds\<close> returns finite steps
  \<open>hs\<close> and a mask \<open>us\<close> such that \<open>x0 + h\<close> lies in the bound interval for the 2-point
  method, and so do \<open>x0 + h\<close> and \<open>x0 + 2 h\<close> where the mask marks the variable one-sided
  and \<open>x0 - h\<close> and \<open>x0 + h\<close> where it does not, for the 3-point method.  This is a
  statement about real numbers; what float64 rounding does to it is shown below.
\<close>

lemma adjusted_steps_within_bounds:
  assumes "length x0 = n" "length h = n" "length lb = n" "length ub = n"
    and "\<forall>i<n. lb ! i \<le> Fin (x0 ! i) \<and> Fin (x0 ! i) \<le> ub ! i"
  shows "(\<exists>hs us. adjust_scheme_to_bounds x0 h 1 ''1-sided'' lb ub = Inr (map Fin hs, us)
        \<and> length hs = n
        \<and> (\<forall>i<n. lb ! i \<le> Fin (x0 ! i + hs ! i) \<and> Fin (x0 ! i + hs ! i) \<le> ub ! i))
     \<and> (\<exists>hs us. adjust_scheme_to_bounds x0 h 1 ''2-sided'' lb ub = Inr (map Fin hs, us)
        \<and> length hs = n \<and> length us = n
        \<and> (\<forall>i<n. if us ! i
              then lb ! i \<le> Fin (x0 ! i + hs ! i) \<and> Fin (x0 ! i + hs ! i) \<le> ub ! i
                 \<and> lb ! i \<le> Fin (x0 ! i + 2 * hs ! i) \<and> Fin (x0 ! i + 2 * hs ! i) \<le> ub ! i
              else lb ! i \<le> Fin (x0 ! i - hs ! i) \<and> Fin (x0 ! i - hs ! i) \<le> ub ! i
                 \<and> lb ! i \<le> Fin (x0 ! i + hs ! i) \<and> Fin (x0 ! i + hs ! i) \<le> ub ! i))"
  using two_point_steps_within_bounds [OF assms] three_point_steps_within_bounds [OF assms]
  by (rule conjI)

lemma adjusted_steps_within_bounds_example:
  "(\<exists>hs us. adjust_scheme_to_bounds [0, 1] [1 / 2, 1 / 2] 1 ''1-sided''
                [Fin (- 1 / 4), MInf] [PInf, Fin 1] = Inr (map Fin hs, us)
        \<and> length hs = 2
        \<and> (\<forall>i<2. [Fin (- 1 / 4), MInf] ! i \<le> Fin ([0, 1] ! i + hs ! i)
                 \<and> Fin ([0, 1] ! i + hs ! i) \<le> [PInf, Fin 1] ! i))
     \<and> (\<exists>hs us. adjust_scheme_to_bounds [0, 1] [1 / 2, 1 / 2] 1 ''2-sided''
                [Fin (- 1 / 4), MInf] [PInf, Fin 1] = Inr (map Fin hs, us)
        \<and> length hs = 2 \<and> length us = 2
        \<and> (\<forall>i<2. if us ! i
              then [Fin (- 1 / 4), MInf] ! i \<le> Fin ([0, 1] ! i + hs ! i)
                 \<and> Fin ([0, 1] ! i + hs ! i) \<le> [PInf, Fin 1] ! i
                 \<and> [Fin (- 1 / 4), MInf] ! i \<le> Fin ([0, 1] ! i + 2 * hs ! i)
                 \<and> Fin ([0, 1] ! i + 2 * hs ! i) \<le> [PInf, Fin 1] ! i
              else [Fin (- 1 / 4), MInf] ! i \<le> Fin ([0, 1] ! i - hs ! i)
                 \<and> Fin ([0, 1] ! i - hs ! i) \<le> [PInf, Fin 1] ! i
                 \<and> [Fin (- 1 / 4), MInf] ! i \<le> Fin ([0, 1] ! i + hs ! i)
                 \<and> Fin ([0, 1] ! i + hs ! i) \<le> [PInf, Fin 1] ! i))"
proof -
  have inside: "\<forall>i<2. [Fin (- 1 / 4), MInf] ! i \<le> Fin ([0, 1] ! i)
      \<and> Fin ([0, 1] ! i) \<le> [PInf, Fin 1] ! i"
    by (simp add: numeral_2_eq_2 less_Suc_eq)
  show ?thesis
    by (rule adjusted_steps_within_bounds [OF _ _ _ _ inside]) simp_all
qed

subsection \<open>StepPlanner: the adjusted steps in float64 arithmetic\<close>

lemma floor_log2_eq:
  fixes x :: real
  assumes "2 powr of_int e \<le> x" "x < 2 powr of_int (e + 1)"
  shows "\<lfloor>log 2 x\<rfloor> = e"
proof -
  have pos: "0 < x" using assms(1) by (smt (verit) powr_gt_zero)
  have "of_int e \<le> log 2 x" using assms(1) pos by (simp add: le_log_iff)
  moreover have "log 2 x < of_int (e + 1)" using assms(2) pos by (simp add: log_less_iff)
  ultimately show ?thesis by linarith
qed

lemma fl64_eval:
  assumes "2 powr of_int e \<le> \<bar>x\<bar>" "\<bar>x\<bar> < 2 powr of_int (e + 1)"
  shows "fl64 x = of_int (round_half_even (x / 2 powr of_int (e - 52))) * 2 powr of_int (e - 52)"
proof -
  have "x \<noteq> 0" using assms(1) by (smt (verit) powr_gt_zero)
  then show ?thesis using floor_log2_eq [OF assms] by (simp add: fl64_def Let_def)
qed

lemma powr_neg_int: "2 powr of_int (- int n) = 1 / (2 :: real) ^ n"
  by (simp add: powr_minus powr_realpow divide_inverse)

lemma fl64_zero: "fl64 0 = 0"
  by (simp add: fl64_def)

lemma x0_float_literal: "fl64 (6 / 10 ^ 10) = x0_float"
  apply (subst fl64_eval [where e = "- 31"])
  apply (simp_all add: x0_float_def powr_minus powr_numeral round_half_even_def Let_def)
  done

lemma lb_float_literal: "fl64 (1 / 10 ^ 10) = lb_float"
  apply (subst fl64_eval [where e = "- 34"])
  apply (simp_all add: lb_float_def powr_minus powr_numeral round_half_even_def Let_def)
  done

lemma fl64_lower_dist: "fl64 (x0_float - lb_float) = lower_dist_float"
  apply (subst fl64_eval [where e = "- 31"])
  apply (simp_all add: x0_float_def lb_float_def lower_dist_float_def powr_minus powr_numeral round_half_even_def Let_def)
  done

lemma fl64_step: "fl64 (- lower_dist_float) = - lower_dist_float"
  apply (subst fl64_eval [where e = "- 31"])
  apply (simp_all add: lower_dist_float_def powr_minus powr_numeral round_half_even_def Let_def)
  done

lemma fl64_default_step: "fl64 (2 powr (- 26)) = 2 powr (- 26)"
  apply (subst fl64_eval [where e = "- 26"])
  apply (simp_all add: powr_minus powr_numeral round_half_even_def Let_def)
  done

lemma fl64_forward_point: "fl64 (x0_float + 2 powr (- 26)) = 9369877000625380 / 2 ^ 79"
  apply (subst fl64_eval [where e = "- 26"])
  apply (simp_all add: x0_float_def powr_minus powr_numeral round_half_even_def Let_def)
  done

lemma fl64_backward_point:
  "fl64 (x0_float + - lower_dist_float) = 7737125245533624 / 2 ^ 86"
  apply (subst fl64_eval [where e = "- 34"])
  apply (simp_all add: x0_float_def lower_dist_float_def powr_minus powr_numeral round_half_even_def Let_def)
  done

lemma default_step_2point:
  "compute_absolute_step None [x0_float] ''2-point'' = Inr [2 powr (- 26)]"
  apply (simp add: compute_absolute_step_def ebind_def vec_def EPS_def powr_powr x0_float_def)
  done

lemma one_sided_adjust_fl64_float:
  "one_sided_adjust_fl64 x0_float (2 powr (- 26)) 1 (Fin lb_float) (Fin x0_float)
    = Fin (- lower_dist_float)"
  apply (simp add: one_sided_adjust_fl64_def Let_def fl64_default_step fl64_lower_dist
      fl64_forward_point ediv_def fl64_step fl64_zero)
  apply (simp add: x0_float_def lb_float_def lower_dist_float_def powr_minus powr_numeral)
  done

text \<open>
  \<^bold>\<open>C1\<close> does not hold of the code, which computes in float64.  Take one variable
  with \<^verbatim>\<open>x0 = 6e-10\<close> and the bounds \<^verbatim>\<open>lb = 1e-10\<close>, \<^verbatim>\<open>ub = 6e-10\<close>, so that
  \<open>lb \<le> x0 \<le> ub\<close>, and the 2-point method with its default step, which is
  \<open>2 powr (- 26)\<close>.  The forward step does not fit, and line 71 sets the step to
  \<^verbatim>\<open>-lower_dist\<close>, the rounded difference \<^verbatim>\<open>x0 - lb\<close>, which is larger than the exact
  difference.  The evaluation point \<^verbatim>\<open>x0 + h\<close> of line 356 is then below \<open>lb\<close>:
  the function is evaluated outside the bound interval.
\<close>

theorem rounded_step_leaves_bounds:
  "fl64 (6 / 10 ^ 10) = x0_float \<and> fl64 (1 / 10 ^ 10) = lb_float
   \<and> lb_float \<le> x0_float
   \<and> compute_absolute_step None [x0_float] ''2-point'' = Inr [2 powr (- 26)]
   \<and> one_sided_adjust_fl64 x0_float (2 powr (- 26)) 1 (Fin lb_float) (Fin x0_float)
       = Fin (- lower_dist_float)
   \<and> fl64 (x0_float + - lower_dist_float) < lb_float"
  apply (simp only: x0_float_literal lb_float_literal default_step_2point
      one_sided_adjust_fl64_float fl64_backward_point)
  apply (simp add: x0_float_def lb_float_def)
  done

subsection \<open>StepPlanner: the default step\<close>

text \<open>
  \<^bold>\<open>C7\<close>.  For every \<open>x0\<close> and either method, with no relative step supplied the
  relative step is \<open>EPS powr (1/2)\<close> for the 2-point and \<open>EPS powr (1/3)\<close> for the
  3-point method, and the absolute step of variable \<open>i\<close> is
  \<open>rel_step * sign (x0 ! i) * max 1 |x0 ! i|\<close>, the sign being \<open>+1\<close> for
  \<open>x0 ! i \<ge> 0\<close> and \<open>-1\<close> otherwise.
\<close>

theorem default_absolute_step:
  assumes "method = ''2-point'' \<or> method = ''3-point''"
  shows "\<exists>hs. compute_absolute_step None x0 method = Inr hs \<and> length hs = length x0
     \<and> (\<forall>i<length x0. hs ! i =
           (if method = ''2-point'' then EPS powr (1 / 2) else EPS powr (1 / 3))
            * (if 0 \<le> x0 ! i then 1 else - 1) * max 1 \<bar>x0 ! i\<bar>)"
  using assms
  by (auto simp: compute_absolute_step_def ebind_def Let_def length_vec nth_vec)

theorem default_absolute_step_witness:
  "\<exists>hs. compute_absolute_step None [- 2, 0] ''3-point'' = Inr hs
     \<and> length hs = 2
     \<and> hs ! 0 = EPS powr (1 / 3) * (- 1) * 2
     \<and> hs ! 1 = EPS powr (1 / 3) * 1 * 1"
  using default_absolute_step [of "''3-point''" "[- 2, 0]"]
  by (auto simp: numeral_2_eq_2)

subsection \<open>approx_derivative: validation and the first evaluation\<close>

lemma invalid_method_no_call:
  "method \<noteq> ''2-point'' \<Longrightarrow> method \<noteq> ''3-point'' \<Longrightarrow>
    approx_derivative func x0 method rel_step f0 bounds sparsity
      = ([], Inl (ValueError ''method must be 2-point or 3-point.''))"
  by (simp add: approx_derivative_def)

lemma shape_mismatch_no_call:
  "length lb \<noteq> length x0 \<Longrightarrow>
    approx_derivative func (Arr1 x0) ''3-point'' rel_step f0 (Arr1 lb, ub) sparsity
      = ([], Inl (ValueError ''Inconsistent shapes between bounds and x0.''))"
  by (simp add: approx_derivative_def prepare_bounds_def split: array_like.splits)

lemma supplied_f0_no_call:
  "fst (approx_derivative func x0 method rel_step (Some f0) bounds sparsity) = []"
  by (simp add: approx_derivative_def Let_def split: array_like.splits prod.splits)

text \<open>
  \<^bold>\<open>C2\<close>.  The checks of the method and of the shapes come before any call of the user
  function (the lemmas above), but the check of \<open>x0\<close> against the bounds (line 323)
  comes after the evaluation \<open>f0 = fun(x0)\<close> of line 317.  With \<open>x0 = [2]\<close>, bounds
  \<open>(0, 1)\<close> and no \<open>f0\<close>, the function has been called once, at the point outside the
  bounds, when the error is raised.
\<close>

theorem bound_violation_after_evaluation:
  "approx_derivative (\<lambda>x. Arr1 x) (Arr1 [2]) ''3-point'' None None (Scalar (Fin 0), Scalar (Fin 1)) None
    = ([[2]], Inl (ValueError ''x0 violates bound constraints.''))"
  by (simp add: approx_derivative_def prepare_bounds_def fun_wrapped_def ebind_def)

theorem bound_violation_after_evaluation_witness:
  "fst (approx_derivative (\<lambda>x. Arr1 x) (Arr1 [2]) ''3-point'' None None
          (Scalar (Fin 0), Scalar (Fin 1)) None) = [[2]]
   \<and> snd (approx_derivative (\<lambda>x. Arr1 x) (Arr1 [2]) ''3-point'' None (Some (Arr1 [2]))
          (Scalar (Fin 0), Scalar (Fin 1)) None) = Inl (ValueError ''x0 violates bound constraints.'')
   \<and> fst (approx_derivative (\<lambda>x. Arr1 x) (Arr1 [2]) ''3-point'' None (Some (Arr1 [2]))
          (Scalar (Fin 0), Scalar (Fin 1)) None) = []"
  using bound_violation_after_evaluation
  by (simp add: approx_derivative_def prepare_bounds_def ebind_def)

subsection \<open>ColumnGrouper: determinism\<close>

text \<open>
  \<^bold>\<open>C9\<close>.  With an explicit order, \<open>group_columns\<close> does not consult the random
  shuffle: two calls with the same matrix and the same order return the same result,
  whatever the shuffle would have drawn.
\<close>

theorem group_columns_deterministic:
  "group_columns shuffle1 A (Some order) = group_columns shuffle2 A (Some order)"
  by (simp add: group_columns_def Let_def)

subsection \<open>DerivativeChecker: an exact analytic Jacobian\<close>










subsection \<open>ColumnGrouper: the grouping invariant\<close>

lemma free_id_exists: "\<exists>g<Suc (length used). g \<notin> set used"
proof (rule ccontr)
  assume "\<not> ?thesis"
  then have "{..<Suc (length used)} \<subseteq> set used" by auto
  then have "card {..<Suc (length used)} \<le> card (set used)"
    by (intro card_mono) auto
  moreover have "card (set used) \<le> length used" by (rule card_length)
  ultimately show False by simp
qed

lemma lowest_unused_props:
  "lowest_unused used \<notin> set used \<and> (\<forall>g<lowest_unused used. g \<in> set used)"
proof -
  obtain g0 where g0: "g0 < Suc (length used)" "g0 \<notin> set used"
    using free_id_exists by blast
  have "List.find (\<lambda>g. g \<notin> set used) [0..<Suc (length used)] \<noteq> None"
    using g0 by (auto simp: find_None_iff simp del: upt_Suc)
  then obtain g where g: "List.find (\<lambda>g. g \<notin> set used) [0..<Suc (length used)] = Some g"
    by blast
  then have "lowest_unused used = g" by (simp add: lowest_unused_def)
  moreover from g have "g \<notin> set used \<and> (\<forall>g'<g. g' \<in> set used)"
    by (auto simp: find_Some_iff simp del: upt_Suc)
  ultimately show ?thesis by simp
qed

lemma valid_coloring_step:
  assumes "valid_coloring share gs"
  shows "valid_coloring share
     (gs @ [lowest_unused (map (\<lambda>i. gs ! i) (filter (\<lambda>i. share i (length gs)) [0..<length gs]))])"
proof -
  define used where "used = map (\<lambda>i. gs ! i) (filter (\<lambda>i. share i (length gs)) [0..<length gs])"
  define c where "c = lowest_unused used"
  have c1: "c \<notin> set used" and c2: "\<forall>g<c. g \<in> set used"
    using lowest_unused_props [of used] by (auto simp: c_def)
  have used_iff: "g \<in> set used \<longleftrightarrow> (\<exists>a<length gs. share a (length gs) \<and> gs ! a = g)" for g
    by (auto simp: used_def)
  show ?thesis
    unfolding used_def [symmetric] c_def [symmetric] valid_coloring_def
  proof (intro allI impI)
    fix b assume b: "b < length (gs @ [c])"
    show "(\<forall>a<b. share a b \<longrightarrow> (gs @ [c]) ! a \<noteq> (gs @ [c]) ! b) \<and>
          (\<forall>g<(gs @ [c]) ! b. \<exists>a<b. (gs @ [c]) ! a = g)"
    proof (cases "b < length gs")
      case True
      from assms True have 1: "\<forall>a<b. share a b \<longrightarrow> gs ! a \<noteq> gs ! b"
        and 2: "\<forall>g<gs ! b. \<exists>a<b. gs ! a = g"
        by (auto simp: valid_coloring_def)
      have nth: "(gs @ [c]) ! a = gs ! a" if "a \<le> b" for a
        using that True by (simp add: nth_append)
      show ?thesis
      proof (intro conjI allI impI)
        fix a assume "a < b" "share a b"
        then show "(gs @ [c]) ! a \<noteq> (gs @ [c]) ! b"
          using 1 nth [of a] nth [of b] by simp
      next
        fix g assume "g < (gs @ [c]) ! b"
        then have "g < gs ! b" using nth [of b] by simp
        then obtain a where "a < b" "gs ! a = g" using 2 by blast
        then show "\<exists>a<b. (gs @ [c]) ! a = g"
          using nth [of a] by auto
      qed
    next
      case False
      with b have [simp]: "b = length gs" by simp
      show ?thesis
        using c1 c2 used_iff by (auto simp: nth_append)
    qed
  qed
qed

lemma greedy_scan_valid:
  assumes "valid_coloring share gs" and "length gs = j" and "j \<le> n"
  shows "valid_coloring share (greedy_scan share [j..<n] gs)
       \<and> length (greedy_scan share [j..<n] gs) = n"
  using assms
proof (induction "n - j" arbitrary: j gs)
  case 0
  then show ?case by simp
next
  case (Suc k)
  then have less: "j < n" by simp
  let ?gs = "gs @ [lowest_unused (map (\<lambda>i. gs ! i) (filter (\<lambda>i. share i j) [0..<length gs]))]"
  have "valid_coloring share ?gs"
    using valid_coloring_step [OF Suc.prems(1)] Suc.prems(2) by simp
  moreover have "length ?gs = Suc j" "Suc j \<le> n" "k = n - Suc j"
    using Suc.prems(2) less Suc.hyps(2) by simp_all
  ultimately have "valid_coloring share (greedy_scan share [Suc j..<n] ?gs)
       \<and> length (greedy_scan share [Suc j..<n] ?gs) = n"
    using Suc.hyps(1) by blast
  then show ?case
    using less by (simp add: upt_conv_Cons)
qed

lemma greedy_scan_all:
  "valid_coloring share (greedy_scan share [0..<n] []) \<and> length (greedy_scan share [0..<n] []) = n"
  using greedy_scan_valid [of share "[]" 0 n] by (simp add: valid_coloring_def)

lemma put_at_distinct:
  assumes "length idx = length vals" "distinct idx" "\<forall>i\<in>set idx. i < length xs"
  shows "\<exists>r. put_at xs idx vals = Inr r \<and> length r = length xs
     \<and> (\<forall>k<length idx. r ! (idx ! k) = vals ! k)
     \<and> (\<forall>i<length xs. i \<notin> set idx \<longrightarrow> r ! i = xs ! i)"
  using assms
proof (induction idx arbitrary: xs vals)
  case Nil
  then show ?case by simp
next
  case (Cons i idx)
  then obtain v vs where vals: "vals = v # vs" by (cases vals) auto
  from Cons.prems have i: "i < length xs" "i \<notin> set idx" by auto
  from Cons.IH [of vs "xs[i := v]"] Cons.prems vals
  obtain r where r: "put_at (xs[i := v]) idx vs = Inr r" "length r = length xs"
    "\<forall>k<length idx. r ! (idx ! k) = vs ! k"
    "\<forall>j<length xs. j \<notin> set idx \<longrightarrow> r ! j = (xs[i := v]) ! j"
    by auto
  have "r ! i = v" using r(4) i by simp
  then have "\<forall>k<length (i # idx). r ! ((i # idx) ! k) = vals ! k"
    using r(3) vals by (auto simp: nth_Cons split: nat.splits)
  moreover have "\<forall>j<length xs. j \<notin> set (i # idx) \<longrightarrow> r ! j = xs ! j"
    using r(4) by auto
  ultimately show ?case
    using r(1,2) i vals by auto
qed

lemma downward_closed_set:
  fixes S :: "nat set"
  assumes "finite S" "\<forall>x\<in>S. \<forall>y<x. y \<in> S"
  shows "S = {..<card S}"
proof -
  have sub: "S \<subseteq> {..<card S}"
  proof
    fix x assume x: "x \<in> S"
    then have "{..x} \<subseteq> S" using assms(2) by (auto simp: le_less)
    then have "card {..x} \<le> card S" using assms(1) by (intro card_mono)
    then show "x \<in> {..<card S}" by simp
  qed
  have "card {..<card S} = card S" by simp
  then show ?thesis
    using sub by (metis card_subset_eq finite_lessThan)
qed

lemma list_ex_upt: "list_ex P [0..<m] = (\<exists>r<m. P r)"
  by (auto simp: list_ex_iff)

lemma group_columns_unfold:
  assumes "A \<noteq> MHigher" and "shape2 A = (m, n)" and "\<forall>c\<in>set order. c < n" and "length order = n"
  shows "\<exists>sh. (\<forall>i<n. \<forall>j<n. sh i j = (\<exists>r<m. structural A r (order ! i) \<and> structural A r (order ! j)))
      \<and> group_columns shuffle A (Some order)
          = put_at (greedy_scan sh [0..<n] []) order (greedy_scan sh [0..<n] [])"
proof (cases A)
  case (MScalar v)
  let ?sh = "\<lambda>i j. list_ex (\<lambda>r. 0 < vec m (\<lambda>r. map (\<lambda>c. if [[v]] ! r ! c \<noteq> 0 then (1::int) else 0) order) ! r ! i
      \<and> 0 < vec m (\<lambda>r. map (\<lambda>c. if [[v]] ! r ! c \<noteq> 0 then (1::int) else 0) order) ! r ! j) [0..<m]"
  have mn: "m = 1" "n = 1" using assms(2) MScalar by (simp_all add: nrows_def ncols_def)
  have iff: "?sh i j = (\<exists>r<m. structural A r (order ! i) \<and> structural A r (order ! j))"
    if "i < n" "j < n" for i j
  proof -
    have "order ! i < n" "order ! j < n" using assms(3,4) that by auto
    then show ?thesis
      using that assms(4) MScalar mn by (auto simp: list_ex_upt nth_vec cong: conj_cong)
  qed
  have all: "\<forall>i<n. \<forall>j<n. ?sh i j = (\<exists>r<m. structural A r (order ! i) \<and> structural A r (order ! j))"
    by (intro allI impI iff)
  have eq: "group_columns shuffle A (Some order)
          = put_at (greedy_scan ?sh [0..<n] []) order (greedy_scan ?sh [0..<n] [])"
    using assms MScalar mn greedy_scan_all [of ?sh n]
    by (auto simp: group_columns_def Let_def group_dense_def nrows_def ncols_def list_ex_iff)
  show ?thesis
    by (rule exI [of _ ?sh]) (intro conjI all eq)
next
  case (MVec v)
  let ?sh = "\<lambda>i j. list_ex (\<lambda>r. 0 < vec m (\<lambda>r. map (\<lambda>c. if [v] ! r ! c \<noteq> 0 then (1::int) else 0) order) ! r ! i
      \<and> 0 < vec m (\<lambda>r. map (\<lambda>c. if [v] ! r ! c \<noteq> 0 then (1::int) else 0) order) ! r ! j) [0..<m]"
  have mn: "m = 1" "n = length v" using assms(2) MVec by (simp_all add: nrows_def ncols_def)
  have iff: "?sh i j = (\<exists>r<m. structural A r (order ! i) \<and> structural A r (order ! j))"
    if "i < n" "j < n" for i j
  proof -
    have "order ! i < n" "order ! j < n" using assms(3,4) that by auto
    then show ?thesis
      using that assms(4) MVec mn by (auto simp: list_ex_upt nth_vec cong: conj_cong)
  qed
  have all: "\<forall>i<n. \<forall>j<n. ?sh i j = (\<exists>r<m. structural A r (order ! i) \<and> structural A r (order ! j))"
    by (intro allI impI iff)
  have eq: "group_columns shuffle A (Some order)
          = put_at (greedy_scan ?sh [0..<n] []) order (greedy_scan ?sh [0..<n] [])"
    using assms MVec mn greedy_scan_all [of ?sh n]
    by (auto simp: group_columns_def Let_def group_dense_def nrows_def ncols_def list_ex_iff)
  show ?thesis
    by (rule exI [of _ ?sh]) (intro conjI all eq)
next
  case (MArr2 M)
  let ?sh = "\<lambda>i j. list_ex (\<lambda>r. 0 < vec m (\<lambda>r. map (\<lambda>c. if M ! r ! c \<noteq> 0 then (1::int) else 0) order) ! r ! i
      \<and> 0 < vec m (\<lambda>r. map (\<lambda>c. if M ! r ! c \<noteq> 0 then (1::int) else 0) order) ! r ! j) [0..<m]"
  have mn: "m = nrows M" "n = ncols M" using assms(2) MArr2 by simp_all
  have iff: "?sh i j = (\<exists>r<m. structural A r (order ! i) \<and> structural A r (order ! j))"
    if "i < n" "j < n" for i j
  proof -
    have "order ! i < n" "order ! j < n" using assms(3,4) that by auto
    then show ?thesis
      using that assms(4) MArr2  by (auto simp: list_ex_upt nth_vec cong: conj_cong)
  qed
  have all: "\<forall>i<n. \<forall>j<n. ?sh i j = (\<exists>r<m. structural A r (order ! i) \<and> structural A r (order ! j))"
    by (intro allI impI iff)
  have eq: "group_columns shuffle A (Some order)
          = put_at (greedy_scan ?sh [0..<n] []) order (greedy_scan ?sh [0..<n] [])"
    using assms MArr2 mn greedy_scan_all [of ?sh n]
    by (auto simp: group_columns_def Let_def group_dense_def list_ex_iff)
  show ?thesis
    by (rule exI [of _ ?sh]) (intro conjI all eq)
next
  case MHigher
  with assms(1) show ?thesis by simp
next
  case (MSparse S)
  let ?cols = "map (\<lambda>c. filter (\<lambda>r. sp_data S (r, c) \<noteq> None) [0..<m]) order"
  let ?sh = "\<lambda>i j. list_ex (\<lambda>r. r \<in> set (?cols ! j)) (?cols ! i)"
  have mn: "m = sp_nrows S" "n = sp_ncols S" using assms(2) MSparse by simp_all
  have iff: "?sh i j = (\<exists>r<m. structural A r (order ! i) \<and> structural A r (order ! j))"
    if "i < n" "j < n" for i j
  proof -
    have "order ! i < n" "order ! j < n" using assms(3,4) that by auto
    then show ?thesis
      using that assms(4) MSparse  by (auto simp: list_ex_iff)
  qed
  have all: "\<forall>i<n. \<forall>j<n. ?sh i j = (\<exists>r<m. structural A r (order ! i) \<and> structural A r (order ! j))"
    by (intro allI impI iff)
  have eq: "group_columns shuffle A (Some order)
          = put_at (greedy_scan ?sh [0..<n] []) order (greedy_scan ?sh [0..<n] [])"
    using assms MSparse mn greedy_scan_all [of ?sh n]
    by (auto simp: group_columns_def Let_def group_sparse_def list_ex_iff)
  show ?thesis
    by (rule exI [of _ ?sh]) (intro conjI all eq)
qed

text \<open>
  \<^bold>\<open>C4\<close>.  For every two-dimensional pattern \<open>A\<close> of shape \<open>(m, n)\<close> (dense or
  sparse) and every permutation \<open>order\<close> of the columns, \<open>group_columns\<close> returns one
  group id per column; the ids are exactly \<open>0, ..., G - 1\<close> for the number \<open>G\<close> of groups;
  and two different columns with the same id have no row in which both are structurally
  nonzero.  The permutation changes the ids, never these properties.
\<close>

theorem group_columns_coloring:
  assumes A: "A \<noteq> MHigher" and shape: "shape2 A = (m, n)"
    and perm: "distinct order" "set order = {..<n}"
  shows "\<exists>gs. group_columns shuffle A (Some order) = Inr gs
      \<and> length gs = n
      \<and> set gs = {..<card (set gs)}
      \<and> (\<forall>i<n. \<forall>j<n. i \<noteq> j \<and> gs ! i = gs ! j
            \<longrightarrow> \<not> (\<exists>r<m. structural A r i \<and> structural A r j))"
proof -
  have len: "length order = n"
    using perm distinct_card [of order] by simp
  have inb: "\<forall>c\<in>set order. c < n"
    using perm by simp
  from group_columns_unfold [OF A shape inb len, of shuffle]
  obtain sh where sh: "\<forall>i<n. \<forall>j<n. sh i j = (\<exists>r<m. structural A r (order ! i) \<and> structural A r (order ! j))"
    and eq: "group_columns shuffle A (Some order)
          = put_at (greedy_scan sh [0..<n] []) order (greedy_scan sh [0..<n] [])"
    by blast
  define cs where "cs = greedy_scan sh [0..<n] []"
  have valid: "valid_coloring sh cs" and lcs: "length cs = n"
    using greedy_scan_all [of sh n] by (simp_all add: cs_def)
  from put_at_distinct [of order cs cs] perm len lcs
  obtain gs where gs: "put_at cs order cs = Inr gs" "length gs = n"
    "\<forall>k<n. gs ! (order ! k) = cs ! k"
    by auto
  have pos: "\<exists>k<n. order ! k = c" if "c < n" for c
  proof -
    have "c \<in> set order" using that perm(2) by simp
    then show ?thesis using len by (auto simp: in_set_conv_nth)
  qed
  have no_share: "\<not> (\<exists>r<m. structural A r (order ! a) \<and> structural A r (order ! b))"
    if "a < b" "b < n" "cs ! a = cs ! b" for a b
  proof -
    have "\<forall>a<b. sh a b \<longrightarrow> cs ! a \<noteq> cs ! b"
      using valid that(2) lcs unfolding valid_coloring_def by blast
    then have "\<not> sh a b" using that(1,3) by blast
    moreover have "a < n" using that(1,2) by simp
    ultimately show ?thesis using sh that(2) by blast
  qed
  have conflict_free: "\<not> (\<exists>r<m. structural A r i \<and> structural A r j)"
    if H: "i < n" "j < n" "i \<noteq> j" "gs ! i = gs ! j" for i j
  proof -
    obtain a where a: "a < n" "order ! a = i"
      using pos [OF H(1)] by blast
    obtain b where b: "b < n" "order ! b = j"
      using pos [OF H(2)] by blast
    have "gs ! (order ! a) = cs ! a" "gs ! (order ! b) = cs ! b"
      using gs(3) a(1) b(1) by blast+
    then have eq: "cs ! a = cs ! b" using a(2) b(2) H(4) by simp
    have ne: "a \<noteq> b" using a(2) b(2) H(3) by blast
    show ?thesis
    proof (cases "a < b")
      case True
      from no_share [OF True b(1) eq] show ?thesis using a(2) b(2) by blast
    next
      case False
      then have "b < a" using ne by simp
      from no_share [OF this a(1) eq [symmetric]] show ?thesis using a(2) b(2) by blast
    qed
  qed
  have "set gs = set cs"
  proof (intro equalityI subsetI)
    fix x assume "x \<in> set gs"
    then obtain c where c: "c < n" "gs ! c = x"
      using gs(2) by (auto simp: in_set_conv_nth)
    then obtain k where k: "k < n" "order ! k = c"
      using pos by blast
    then have "cs ! k = x" using gs(3) c by auto
    then show "x \<in> set cs" using k(1) lcs nth_mem by blast
  next
    fix x assume "x \<in> set cs"
    then obtain k where k: "k < n" "cs ! k = x"
      using lcs by (auto simp: in_set_conv_nth)
    have "order ! k < n" using inb k(1) len by simp
    moreover have "gs ! (order ! k) = x" using gs(3) k by simp
    ultimately show "x \<in> set gs" using gs(2) nth_mem by blast
  qed
  moreover have "\<forall>x\<in>set cs. \<forall>y<x. y \<in> set cs"
  proof (intro ballI allI impI)
    fix x y assume "x \<in> set cs" "y < x"
    then obtain b where "b < length cs" "cs ! b = x" by (auto simp: in_set_conv_nth)
    with valid \<open>y < x\<close> have "\<exists>a<b. cs ! a = y"
      unfolding valid_coloring_def by blast
    then obtain a where "a < b" "cs ! a = y" by blast
    then have "a < length cs" using \<open>b < length cs\<close> by simp
    then show "y \<in> set cs" using \<open>cs ! a = y\<close> nth_mem by blast
  qed
  ultimately have range: "set gs = {..<card (set gs)}"
    using downward_closed_set [of "set cs"] by simp
  have result: "group_columns shuffle A (Some order) = Inr gs"
    using eq gs(1) by (simp add: cs_def)
  have free: "\<forall>i<n. \<forall>j<n. i \<noteq> j \<and> gs ! i = gs ! j
            \<longrightarrow> \<not> (\<exists>r<m. structural A r i \<and> structural A r j)"
    using conflict_free by blast
  show ?thesis
    by (rule exI [of _ gs]) (intro conjI result gs(2) range free)
qed

theorem group_columns_coloring_witness:
  "\<exists>gs. group_columns id (MArr2 [[1, 1, 0], [0, 1, 1]]) (Some [2, 0, 1]) = Inr gs
      \<and> length gs = 3
      \<and> set gs = {..<card (set gs)}
      \<and> (\<forall>i<3. \<forall>j<3. i \<noteq> j \<and> gs ! i = gs ! j
            \<longrightarrow> \<not> (\<exists>r<2. structural (MArr2 [[1, 1, 0], [0, 1, 1]]) r i
                         \<and> structural (MArr2 [[1, 1, 0], [0, 1, 1]]) r j))"
  by (rule group_columns_coloring) (auto simp: nrows_def ncols_def)

subsection \<open>Differencers: a fully dense structure\<close>















lemma map_nth_upt: "length xs = m \<Longrightarrow> map ((!) xs) [0..<m] = xs"
  using map_nth [of xs] by simp

lemma zip_upt_values:
  "zip (zip [0..<m] (map (\<lambda>r. c) [0..<m])) (map g [0..<m]) = map (\<lambda>r. ((r, c), g r)) [0..<m]"
  by (induction m) (auto simp: zip_append)

lemma np_divide_map:
  "d \<noteq> 0 \<Longrightarrow> np_divide (map g xs) (map (\<lambda>x. d) xs) = Inr (map (\<lambda>x. g x / d) xs)"
  by (induction xs) (auto simp: np_divide_def list_ex_iff dest: in_set_takeD)





















end
